theory Spec2Isabelle
  imports Main "HOL-Library.Sublist"
begin

section \<open>The ArticleRewriter controller of static/js/app.js\<close>

text \<open>
  The class \<^verbatim>\<open>ArticleRewriter\<close> keeps an API key and a list of articles and
  drives a page: tabs, a blog selector, an article table, notifications and a
  loading overlay. Every method becomes a function from the state before the
  call to the state after it. The state holds the fields of the object, the
  parts of the document the methods read or write, and a trace of the calls
  that leave the controller (notifications, overlay calls, network requests,
  console output), so that "how often" and "in which order" can be stated.

  An asynchronous method is modelled at completion: the awaited promises have
  settled, and the browser's answer is an argument of the model. Timers (the
  removal of a notification after 3000 ms) are outside the model. A workflow
  that starts while another one is in flight starts in a state the other one
  has left half-way, for instance with a loading overlay on the page.
\<close>

subsection \<open>Data\<close>

text \<open>
  An article and a blog as the backend sends them. A field the response may
  leave out is an option; \<open>rewritten\<close> holds \<^verbatim>\<open>rewritten.content\<close>.
\<close>

record article =
  art_id :: string
  title :: string
  content :: string
  schedule :: "string option"
  rewritten :: "string option"

record blog =
  blog_id :: string
  blog_name :: string

text \<open>
  What an element holds: a text, set through \<^verbatim>\<open>textContent\<close>; or markup, set
  through \<^verbatim>\<open>innerHTML\<close> and kept as the string that was assigned; or other
  elements only (\<open>Nested\<close>).
\<close>

datatype content = Text string | Markup string | Nested

text \<open>
  An element of the document, as far as the methods look at it: its id, its
  \<^verbatim>\<open>href\<close> attribute, its class list (a \<^verbatim>\<open>DOMTokenList\<close>, in order), its content
  and its depth. The document is the list of the elements of the body in
  document order (every element before the elements inside it); the queries
  of the source (\<^verbatim>\<open>getElementById\<close>, \<^verbatim>\<open>querySelector\<close>, \<^verbatim>\<open>querySelectorAll\<close>) only
  depend on that order. \<open>el_depth\<close> is the number of ancestors an element has
  inside the body: a child of the body has depth 0, and the elements inside
  an element are the ones that follow it with a greater depth, up to the first
  one that is not deeper. Elements appended to the body come last, with
  depth 0.
\<close>

record element =
  el_id :: "string option"
  el_href :: "string option"
  classList :: "string list"
  el_content :: content
  el_depth :: nat

text \<open>
  An \<^verbatim>\<open>option\<close> of the blog selector and a row of the article table. A row
  holds its class list, its \<^verbatim>\<open>data-id\<close> and the markup assigned to its
  \<^verbatim>\<open>innerHTML\<close>, as the string it is. The table is kept apart from \<open>elements\<close>.
\<close>

record select_option =
  opt_value :: string
  opt_text :: string

record table_row =
  row_classes :: "string list"
  dataset_id :: string
  row_innerHTML :: string

datatype severity = Info | Success | Error

datatype request =
    PostBlogs string string
  | PostFetchArticles string string

datatype event =
    Notification string severity
  | LoadingShown string
  | LoadingHidden
  | Fetch request
  | ConsoleError string

text \<open>
  The controller and its page. \<open>apiKeyInput\<close> and \<open>sitemapUrlInput\<close> are the
  values of the two input fields, \<open>blogSelect\<close> the options of the selector and
  \<open>tbody\<close> the rows of \<^verbatim>\<open>#articlesTable tbody\<close>; each is \<open>None\<close> when the page has
  no such element.
\<close>

record state =
  apiKey :: string
  articles :: "article list"
  selectedArticle :: "article option"
  elements :: "element list"
  apiKeyInput :: "string option"
  sitemapUrlInput :: "string option"
  blogSelect :: "select_option list option"
  tbody :: "table_row list option"
  trace :: "event list"

text \<open>
  What the browser answers to \<^verbatim>\<open>fetch\<close>: the promise rejects with a message, or
  it resolves to a response with its \<^verbatim>\<open>ok\<close> flag and a body. \<^verbatim>\<open>response.json()\<close>
  rejects with a message (\<open>BadJson\<close>), or yields \<^verbatim>\<open>null\<close>, or yields a value
  whose fields \<^verbatim>\<open>error\<close>, \<^verbatim>\<open>blogs\<close> and \<^verbatim>\<open>articles\<close> may each be missing (a JSON
  number, string or array has none of them). A field that is there has the
  shape the backend documents: \<^verbatim>\<open>error\<close> is a string, \<^verbatim>\<open>blogs\<close> and \<^verbatim>\<open>articles\<close> are
  arrays of blog and article objects.
\<close>

record payload =
  p_error :: "string option"
  p_blogs :: "blog list option"
  p_articles :: "article list option"

datatype body = BadJson string | JsonNull | JsonObj payload

datatype fetch_outcome = Rejected string | Responded bool body

text \<open>
  The runtime the source relies on and does not define: whether \<^verbatim>\<open>new URL(u)\<close>
  succeeds, \<^verbatim>\<open>window.location.origin\<close>, the network, the message of the
  \<^verbatim>\<open>TypeError\<close> that reading the named property of \<^verbatim>\<open>null\<close> throws, and the
  HTML parser: \<open>parse_html rt m\<close> are the elements the browser puts inside an
  element whose \<^verbatim>\<open>innerHTML\<close> is set to \<open>m\<close>, in document order, with depth 0
  for the children of that element.
\<close>

record env =
  url_parses :: "string \<Rightarrow> bool"
  origin :: string
  network :: "request \<Rightarrow> fetch_outcome"
  null_deref_message :: "string \<Rightarrow> string"
  parse_html :: "string \<Rightarrow> element list"

subsection \<open>Class lists and document queries\<close>

definition class_add :: "string \<Rightarrow> element \<Rightarrow> element" where
  "class_add c e =
     (if c \<in> set (classList e) then e else e\<lparr>classList := classList e @ [c]\<rparr>)"

definition class_remove :: "string \<Rightarrow> element \<Rightarrow> element" where
  "class_remove c e = e\<lparr>classList := removeAll c (classList e)\<rparr>"

definition has_class :: "string \<Rightarrow> element \<Rightarrow> bool" where
  "has_class c e = (c \<in> set (classList e))"

text \<open>
  \<^verbatim>\<open>const x = document.getElementById(i); if (x) { change x }\<close>: the first
  element that matches is changed, and nothing happens when none matches.
\<close>

fun update_first :: "('a \<Rightarrow> bool) \<Rightarrow> ('a \<Rightarrow> 'a) \<Rightarrow> 'a list \<Rightarrow> 'a list" where
  "update_first P f [] = []"
| "update_first P f (x # xs) = (if P x then f x # xs else x # update_first P f xs)"

text \<open>
  \<^verbatim>\<open>const x = document.getElementById(i); if (x) { x.remove() }\<close>: the first
  element that matches leaves the document together with the elements inside
  it, which are the deeper ones that follow it.
\<close>

fun remove_subtree :: "(element \<Rightarrow> bool) \<Rightarrow> element list \<Rightarrow> element list" where
  "remove_subtree P [] = []"
| "remove_subtree P (x # xs) =
     (if P x then dropWhile (\<lambda>y. el_depth x < el_depth y) xs
      else x # remove_subtree P xs)"

text \<open>An element's id is never the empty string, so the empty id finds nothing.\<close>

definition has_id :: "string \<Rightarrow> element \<Rightarrow> bool" where
  "has_id i e = (i \<noteq> [] \<and> el_id e = Some i)"

text \<open>
  The selector \<^verbatim>\<open>[href="#${tabId}"]\<close> matches an element whose \<^verbatim>\<open>href\<close> attribute
  is \<^verbatim>\<open>#\<close> followed by the tab id (tab ids are taken to be free of quotes,
  backslashes and line breaks, which the selector syntax would read otherwise).
\<close>

definition has_href_to :: "string \<Rightarrow> element \<Rightarrow> bool" where
  "has_href_to tabId e = (el_href e = Some (CHR ''#'' # tabId))"

subsection \<open>switchTab\<close>

definition hide_contents :: "element list \<Rightarrow> element list" where
  "hide_contents es =
     map (\<lambda>e. if has_class ''tab-content'' e then class_add ''hidden'' e else e) es"

definition show_selected :: "string \<Rightarrow> element list \<Rightarrow> element list" where
  "show_selected tabId es = update_first (has_id tabId) (class_remove ''hidden'') es"

definition tab_inactive :: "element \<Rightarrow> element" where
  "tab_inactive e =
     class_add ''hover:bg-gray-50'' (class_add ''text-gray-600''
       (class_remove ''text-blue-600'' (class_remove ''bg-blue-50'' e)))"

definition tab_active :: "element \<Rightarrow> element" where
  "tab_active e =
     class_remove ''hover:bg-gray-50'' (class_remove ''text-gray-600''
       (class_add ''text-blue-600'' (class_add ''bg-blue-50'' e)))"

definition reset_tabs :: "element list \<Rightarrow> element list" where
  "reset_tabs es = map (\<lambda>e. if has_class ''tab-link'' e then tab_inactive e else e) es"

definition mark_selected :: "string \<Rightarrow> element list \<Rightarrow> element list" where
  "mark_selected tabId es = update_first (has_href_to tabId) tab_active es"

definition switchTab :: "string \<Rightarrow> state \<Rightarrow> state" where
  "switchTab tabId s =
     s\<lparr>elements :=
         mark_selected tabId (reset_tabs (show_selected tabId (hide_contents (elements s))))\<rparr>"

text \<open>A content panel is visible when it does not carry the class \<^verbatim>\<open>hidden\<close>.\<close>

definition visible_panels :: "state \<Rightarrow> element list" where
  "visible_panels s =
     filter (\<lambda>e. has_class ''tab-content'' e \<and> \<not> has_class ''hidden'' e) (elements s)"

definition active_tabs :: "state \<Rightarrow> element list" where
  "active_tabs s = filter (has_class ''bg-blue-50'') (elements s)"

subsection \<open>Notifications and the loading overlay\<close>

definition severity_class :: "severity \<Rightarrow> string" where
  "severity_class t =
     (if t = Error then ''bg-red-500''
      else if t = Success then ''bg-green-500''
      else ''bg-blue-500'')"

definition showNotification :: "string \<Rightarrow> severity \<Rightarrow> state \<Rightarrow> state" where
  "showNotification message t s =
     s\<lparr>elements := elements s @
          [\<lparr>el_id = None, el_href = None,
            classList = [''fixed'', ''bottom-4'', ''right-4'', ''px-6'', ''py-3'',
                         ''rounded-lg'', ''text-white'', severity_class t],
            el_content = Text message, el_depth = 0\<rparr>],
        trace := trace s @ [Notification message t]\<rparr>"

text \<open>
  The template literal assigned to \<^verbatim>\<open>loading.innerHTML\<close>, with the message put in
  as it is; \<open>nl\<close> is the line break and \<open>indent n\<close> are \<open>n\<close> blanks.
\<close>

definition nl :: string where
  "nl = [CHR 0x0A]"

definition indent :: "nat \<Rightarrow> string" where
  "indent n = replicate n CHR '' ''"

definition loading_markup :: "string \<Rightarrow> string" where
  \<open>loading_markup message =
     nl @ indent 12 @ ''<div class="bg-white p-4 rounded-lg flex items-center space-x-3">''
     @ nl @ indent 16
     @ ''<div class="animate-spin rounded-full h-6 w-6 border-4 border-blue-500 border-t-transparent"></div>''
     @ nl @ indent 16 @ ''<span>'' @ message @ ''</span>''
     @ nl @ indent 12 @ ''</div>''
     @ nl @ indent 8\<close>

definition loading_element :: "string \<Rightarrow> element" where
  "loading_element message =
     \<lparr>el_id = Some ''loadingOverlay'', el_href = None,
      classList = [''fixed'', ''inset-0'', ''bg-black'', ''bg-opacity-50'', ''flex'',
                   ''items-center'', ''justify-center''],
      el_content = Markup (loading_markup message), el_depth = 0\<rparr>"

text \<open>The elements parsed out of markup lie inside the element that holds it.\<close>

definition inside :: "element \<Rightarrow> element list \<Rightarrow> element list" where
  "inside e ds = map (\<lambda>d. d\<lparr>el_depth := Suc (el_depth e + el_depth d)\<rparr>) ds"

text \<open>
  \<^verbatim>\<open>showLoading\<close> appends the overlay to the body; what the browser parses out
  of its markup comes with it, inside it.
\<close>

definition showLoading :: "env \<Rightarrow> string \<Rightarrow> state \<Rightarrow> state" where
  "showLoading rt message s =
     s\<lparr>elements := elements s @
          loading_element message
            # inside (loading_element message) (parse_html rt (loading_markup message)),
       trace := trace s @ [LoadingShown message]\<rparr>"

definition hideLoading :: "state \<Rightarrow> state" where
  "hideLoading s =
     s\<lparr>elements := remove_subtree (has_id ''loadingOverlay'') (elements s),
       trace := trace s @ [LoadingHidden]\<rparr>"

text \<open>
  The elements with the id of the overlay, and among them the overlays proper:
  the ones that do not lie inside another element with that id.
\<close>

definition overlays :: "state \<Rightarrow> element list" where
  "overlays s = filter (has_id ''loadingOverlay'') (elements s)"

function tops :: "(element \<Rightarrow> bool) \<Rightarrow> element list \<Rightarrow> element list" where
  "tops P [] = []"
| "tops P (x # xs) =
     (if P x then x # tops P (dropWhile (\<lambda>y. el_depth x < el_depth y) xs)
      else tops P xs)"
  by pat_completeness auto
termination
  by (relation "measure (\<lambda>(P, xs). length xs)")
     (auto simp add: less_Suc_eq_le length_dropWhile_le)

definition top_overlays :: "state \<Rightarrow> element list" where
  "top_overlays s = tops (has_id ''loadingOverlay'') (elements s)"

text \<open>A sequence of calls of the two overlay methods, run from left to right.\<close>

datatype loading_call = Show string | Hide

fun loading_step :: "env \<Rightarrow> state \<Rightarrow> loading_call \<Rightarrow> state" where
  "loading_step rt s (Show message) = showLoading rt message s"
| "loading_step rt s Hide = hideLoading s"

definition run_loading :: "env \<Rightarrow> loading_call list \<Rightarrow> state \<Rightarrow> state" where
  "run_loading rt cs s = foldl (loading_step rt) s cs"

text \<open>A queue of overlays: a call appends at the end or drops the head.\<close>

fun queue_step :: "element list \<Rightarrow> loading_call \<Rightarrow> element list" where
  "queue_step q (Show message) = q @ [loading_element message]"
| "queue_step q Hide = tl q"

fun count_step :: "nat \<Rightarrow> loading_call \<Rightarrow> nat" where
  "count_step n (Show message) = Suc n"
| "count_step n Hide = n - 1"

subsection \<open>The save-API-key control\<close>

text \<open>
  The click handler of \<^verbatim>\<open>#saveApiKey\<close> reads \<^verbatim>\<open>document.getElementById('apiKey').value\<close>
  with no check: on a page without that input the read throws, the handler
  stops there and nothing has changed (\<open>None\<close>).
\<close>

definition saveApiKey_click :: "state \<Rightarrow> state option" where
  "saveApiKey_click s =
     (case apiKeyInput s of
        None \<Rightarrow> None
      | Some v \<Rightarrow> Some (showNotification ''API key saved successfully'' Success (s\<lparr>apiKey := v\<rparr>)))"

subsection \<open>updateArticlesTable\<close>

text \<open>
  \<^verbatim>\<open>article.schedule || 'Not scheduled'\<close>: the placeholder stands in for a
  schedule that is missing and for one that is the empty string.
\<close>

definition schedule_text :: "article \<Rightarrow> string" where
  "schedule_text a =
     (case schedule a of
        None \<Rightarrow> ''Not scheduled''
      | Some t \<Rightarrow> if t = [] then ''Not scheduled'' else t)"

text \<open>
  The template literal assigned to \<^verbatim>\<open>row.innerHTML\<close>: three cells, with the two
  interpolated strings put in as they are, unescaped, and the label
  \<^verbatim>\<open>Pending\<close> in the third. What the row shows is what the browser makes of
  this markup.
\<close>

definition row_markup :: "string \<Rightarrow> string \<Rightarrow> string" where
  \<open>row_markup title_part schedule_part =
     nl @ indent 16 @ ''<td class="px-6 py-4 whitespace-nowrap text-sm text-gray-900">''
     @ title_part @ ''</td>''
     @ nl @ indent 16 @ ''<td class="px-6 py-4 whitespace-nowrap text-sm text-gray-500">''
     @ schedule_part @ ''</td>''
     @ nl @ indent 16 @ ''<td class="px-6 py-4 whitespace-nowrap">''
     @ nl @ indent 20
     @ ''<span class="status px-2 inline-flex text-xs leading-5 font-semibold rounded-full bg-yellow-100 text-yellow-800">''
     @ nl @ indent 24 @ ''Pending''
     @ nl @ indent 20 @ ''</span>''
     @ nl @ indent 16 @ ''</td>''
     @ nl @ indent 12\<close>

text \<open>
  The row built for one article. The click listener of the row is not part
  of the model.
\<close>

definition article_row :: "article \<Rightarrow> table_row" where
  "article_row a =
     \<lparr>row_classes = [''article-row'', ''hover:bg-gray-50'', ''cursor-pointer''],
      dataset_id = art_id a,
      row_innerHTML = row_markup (title a) (schedule_text a)\<rparr>"

definition updateArticlesTable :: "state \<Rightarrow> state" where
  "updateArticlesTable s =
     (case tbody s of
        None \<Rightarrow> s
      | Some old_rows \<Rightarrow> s\<lparr>tbody := Some (foldl (\<lambda>rows a. rows @ [article_row a]) [] (articles s))\<rparr>)"

subsection \<open>refreshBlogs\<close>

text \<open>\<^verbatim>\<open>x || fallback\<close> on a string that may be missing.\<close>

definition or_else :: "string option \<Rightarrow> string \<Rightarrow> string" where
  "or_else x fallback = (case x of None \<Rightarrow> fallback | Some t \<Rightarrow> if t = [] then fallback else t)"

definition blog_option :: "blog \<Rightarrow> select_option" where
  "blog_option b = \<lparr>opt_value = blog_id b, opt_text = blog_name b\<rparr>"

definition fill_blogSelect :: "blog list \<Rightarrow> state \<Rightarrow> state" where
  "fill_blogSelect bs s =
     (case blogSelect s of
        None \<Rightarrow> s
      | Some old_options \<Rightarrow>
          s\<lparr>blogSelect := Some (foldl (\<lambda>options b. options @ [blog_option b]) [] bs)\<rparr>)"

definition send :: "request \<Rightarrow> state \<Rightarrow> state" where
  "send r s = s\<lparr>trace := trace s @ [Fetch r]\<rparr>"

text \<open>
  The \<^verbatim>\<open>try\<close> block: the message of the error it throws, if it throws, and the
  state at that moment.
\<close>

definition refreshBlogs_try :: "env \<Rightarrow> state \<Rightarrow> string option \<times> state" where
  "refreshBlogs_try rt s =
     (if apiKey s = [] then (Some ''Please set your API key first'', s)
      else
        let s1 = showLoading rt ''Refreshing blogs...'' s;
            r = PostBlogs ''/api/blogs'' (apiKey s);
            s2 = send r s1
        in case network rt r of
             Rejected m \<Rightarrow> (Some m, s2)
           | Responded ok b \<Rightarrow>
               (case b of
                  BadJson m \<Rightarrow> (Some m, s2)
                | JsonNull \<Rightarrow> (Some (null_deref_message rt ''blogs''), s2)
                | JsonObj d \<Rightarrow>
                    (case p_blogs d of
                       Some bs \<Rightarrow>
                         (None, showNotification ''Blogs refreshed successfully'' Success
                                  (fill_blogSelect bs s2))
                     | None \<Rightarrow> (Some (or_else (p_error d) ''Failed to fetch blogs''), s2))))"

definition refreshBlogs :: "env \<Rightarrow> state \<Rightarrow> state" where
  "refreshBlogs rt s =
     (case refreshBlogs_try rt s of
        (None, s') \<Rightarrow> hideLoading s'
      | (Some m, s') \<Rightarrow> hideLoading (showNotification m Error s'))"

subsection \<open>fetchArticles\<close>

text \<open>The decimal digits of a number, as a template literal prints it.\<close>

fun show_nat :: "nat \<Rightarrow> string" where
  "show_nat n =
     (if n < 10 then [''0123456789'' ! n]
      else show_nat (n div 10) @ [''0123456789'' ! (n mod 10)])"

declare show_nat.simps [simp del]

definition sitemapUrl_of :: "state \<Rightarrow> string" where
  "sitemapUrl_of s = or_else (sitemapUrlInput s) ''https://blog.google/sitemap.xml''"

definition fetchArticles_try :: "env \<Rightarrow> state \<Rightarrow> string option \<times> state" where
  "fetchArticles_try rt s =
     (let sitemapUrl = sitemapUrl_of s in
      if sitemapUrl = [] then (Some ''Please enter a sitemap URL'', s)
      else if \<not> url_parses rt sitemapUrl then (Some ''Please enter a valid URL'', s)
      else
        let s1 = showLoading rt ''Fetching articles...'' s;
            r = PostFetchArticles (origin rt @ ''/api/fetch-articles'') sitemapUrl;
            s2 = send r s1
        in case network rt r of
             Rejected m \<Rightarrow> (Some m, s2)
           | Responded ok b \<Rightarrow>
               (case b of
                  BadJson m \<Rightarrow> (Some ''Invalid response from server'', s2)
                | JsonNull \<Rightarrow>
                    (Some (null_deref_message rt (if \<not> ok then ''error'' else ''articles'')), s2)
                | JsonObj d \<Rightarrow>
                    if \<not> ok then (Some (or_else (p_error d) ''Failed to fetch articles''), s2)
                    else
                      (case p_articles d of
                         Some (a # as) \<Rightarrow>
                           (None,
                            showNotification
                              (''Successfully fetched '' @ show_nat (length (a # as)) @ '' articles'')
                              Success
                              (updateArticlesTable (s2\<lparr>articles := a # as\<rparr>)))
                       | _ \<Rightarrow> (Some ''No articles found in the sitemap'', s2))))"

definition fetchArticles :: "env \<Rightarrow> state \<Rightarrow> state" where
  "fetchArticles rt s =
     (case fetchArticles_try rt s of
        (None, s') \<Rightarrow> hideLoading s'
      | (Some m, s') \<Rightarrow>
          hideLoading
            (updateArticlesTable
               ((showNotification m Error
                   (s'\<lparr>trace := trace s' @ [ConsoleError m]\<rparr>))\<lparr>articles := []\<rparr>)))"

text \<open>How often \<^verbatim>\<open>hideLoading\<close> has run, and which requests have gone out.\<close>

definition hide_count :: "state \<Rightarrow> nat" where
  "hide_count s = length (filter (\<lambda>e. e = LoadingHidden) (trace s))"

fun is_fetch :: "event \<Rightarrow> bool" where
  "is_fetch (Fetch r) = True"
| "is_fetch e = False"

definition requests :: "state \<Rightarrow> event list" where
  "requests s = filter is_fetch (trace s)"

fun is_error_notification :: "event \<Rightarrow> bool" where
  "is_error_notification (Notification m t) = (t = Error)"
| "is_error_notification e = False"

definition error_notifications :: "state \<Rightarrow> event list" where
  "error_notifications s = filter is_error_notification (trace s)"



subsection \<open>Auxiliary definitions for the proofs\<close>

text \<open>
  What \<^verbatim>\<open>switchTab\<close> does to a single element: \<open>m1\<close> says that the element is
  the one \<^verbatim>\<open>getElementById\<close> returns, \<open>m2\<close> that it is the one \<^verbatim>\<open>querySelector\<close>
  returns. \<open>tab_walk\<close> goes through the document once and remembers in \<open>f1\<close> and
  \<open>f2\<close> whether the two queries have found their element already; \<open>tab_steps\<close>
  is the body of \<open>switchTab\<close> with the same two flags.
\<close>

definition panel_pass :: "bool \<Rightarrow> element \<Rightarrow> element" where
  "panel_pass m1 e =
     (let e1 = (if has_class ''tab-content'' e then class_add ''hidden'' e else e)
      in if m1 then class_remove ''hidden'' e1 else e1)"

definition link_pass :: "bool \<Rightarrow> element \<Rightarrow> element" where
  "link_pass m2 e =
     (let e3 = (if has_class ''tab-link'' e then tab_inactive e else e)
      in if m2 then tab_active e3 else e3)"

definition tab_pass :: "bool \<Rightarrow> bool \<Rightarrow> element \<Rightarrow> element" where
  "tab_pass m1 m2 e = link_pass m2 (panel_pass m1 e)"

fun tab_walk :: "string \<Rightarrow> bool \<Rightarrow> bool \<Rightarrow> element list \<Rightarrow> element list" where
  "tab_walk t f1 f2 [] = []"
| "tab_walk t f1 f2 (e # es) =
     tab_pass (\<not> f1 \<and> has_id t e) (\<not> f2 \<and> has_href_to t e) e
       # tab_walk t (f1 \<or> has_id t e) (f2 \<or> has_href_to t e) es"

definition tab_steps :: "string \<Rightarrow> bool \<Rightarrow> bool \<Rightarrow> element list \<Rightarrow> element list" where
  "tab_steps t f1 f2 es =
     (let es2 = (if f1 then hide_contents es else show_selected t (hide_contents es));
          es3 = reset_tabs es2
      in if f2 then es3 else mark_selected t es3)"

text \<open>
  The request \<^verbatim>\<open>fetchArticles\<close> sends, and the answers to it that the method
  treats as a failure: a rejected \<^verbatim>\<open>fetch\<close>, a body that is not JSON, a body that
  is \<^verbatim>\<open>null\<close>, a status that is not ok, and an ok response whose \<^verbatim>\<open>articles\<close>
  field is missing or empty (the body \<^verbatim>\<open>{ error: ... }\<close> of a server-reported
  error is such a body).
\<close>

definition articles_request :: "env \<Rightarrow> state \<Rightarrow> request" where
  "articles_request rt s =
     PostFetchArticles (origin rt @ ''/api/fetch-articles'') (sitemapUrl_of s)"

fun fetch_failure :: "fetch_outcome \<Rightarrow> bool" where
  "fetch_failure (Rejected m) = True"
| "fetch_failure (Responded ok (BadJson m)) = True"
| "fetch_failure (Responded ok JsonNull) = True"
| "fetch_failure (Responded ok (JsonObj d)) =
     (\<not> ok \<or> p_articles d = None \<or> p_articles d = Some [])"

subsection \<open>Example inputs\<close>

text \<open>
  A page with two tabs, \<^verbatim>\<open>settings\<close> (shown) and \<^verbatim>\<open>articles\<close> (hidden), empty input
  fields, an empty blog selector and an empty article table, in the state the
  constructor leaves it in; an article; and a runtime whose network gives the
  answer \<open>r\<close> to every request. Its \<open>url_parses\<close> stands for the browser's URL
  parser on the two addresses used below: it accepts the default sitemap
  address and rejects \<^verbatim>\<open>not a url\<close>, as the browser does. Its \<open>parse_html\<close>
  stands for the browser's HTML parser on the markup of the two overlays the
  workflows show: a box that holds a spinner and a span with the message.
\<close>

definition example_page :: state where
  "example_page =
     \<lparr>apiKey = [], articles = [], selectedArticle = None,
      elements =
        [\<lparr>el_id = Some ''settings'', el_href = None,
          classList = [''tab-content''], el_content = Nested, el_depth = 0\<rparr>,
         \<lparr>el_id = Some ''articles'', el_href = None,
          classList = [''tab-content'', ''hidden''], el_content = Nested, el_depth = 0\<rparr>,
         \<lparr>el_id = None, el_href = Some ''#settings'',
          classList = [''tab-link'', ''bg-blue-50'', ''text-blue-600''],
          el_content = Text ''Settings'', el_depth = 0\<rparr>,
         \<lparr>el_id = None, el_href = Some ''#articles'',
          classList = [''tab-link'', ''text-gray-600'', ''hover:bg-gray-50''],
          el_content = Text ''Articles'', el_depth = 0\<rparr>],
      apiKeyInput = Some [], sitemapUrlInput = Some [], blogSelect = Some [],
      tbody = Some [], trace = []\<rparr>"

definition example_article :: article where
  "example_article =
     \<lparr>art_id = ''1'', title = ''A'', content = ''x'', schedule = None, rewritten = None\<rparr>"

definition overlay_inner :: "string \<Rightarrow> element list" where
  "overlay_inner message =
     [\<lparr>el_id = None, el_href = None,
       classList = [''bg-white'', ''p-4'', ''rounded-lg'', ''flex'', ''items-center'',
                    ''space-x-3''],
       el_content = Nested, el_depth = 0\<rparr>,
      \<lparr>el_id = None, el_href = None,
       classList = [''animate-spin'', ''rounded-full'', ''h-6'', ''w-6'', ''border-4'',
                    ''border-blue-500'', ''border-t-transparent''],
       el_content = Text [], el_depth = 1\<rparr>,
      \<lparr>el_id = None, el_href = None, classList = [],
       el_content = Text message, el_depth = 1\<rparr>]"

definition example_parser :: "string \<Rightarrow> element list" where
  "example_parser m =
     (if m = loading_markup ''Refreshing blogs...'' then overlay_inner ''Refreshing blogs...''
      else if m = loading_markup ''Fetching articles...''
        then overlay_inner ''Fetching articles...''
      else [])"

definition example_env :: "fetch_outcome \<Rightarrow> env" where
  "example_env r =
     \<lparr>url_parses = (\<lambda>u. take 8 u = ''https://''), origin = ''http://localhost:8000'',
      network = (\<lambda>q. r), null_deref_message = (\<lambda>p. ''data is null''),
      parse_html = example_parser\<rparr>"

definition second_article :: article where
  "second_article =
     \<lparr>art_id = ''2'', title = ''B'', content = ''y'', schedule = Some ''Monday 9:00'',
      rewritten = None\<rparr>"

text \<open>The example page with one article from an earlier fetch and a malformed address.\<close>

definition stale_page :: state where
  "stale_page =
     example_page\<lparr>articles := [example_article], sitemapUrlInput := Some ''not a url''\<rparr>"

text \<open>
  The example page with an API key and one blog in the selector, and the
  answer of a backend that reports an error.
\<close>

definition keyed_page :: state where
  "keyed_page =
     example_page\<lparr>apiKey := ''secret'',
                   blogSelect := Some [\<lparr>opt_value = ''7'', opt_text = ''News''\<rparr>]\<rparr>"

definition invalid_key_response :: fetch_outcome where
  "invalid_key_response =
     Responded False
       (JsonObj \<lparr>p_error = Some ''Invalid API key'', p_blogs = None, p_articles = None\<rparr>)"



definition with_articles :: "article list \<Rightarrow> fetch_outcome" where
  "with_articles as =
     Responded True (JsonObj \<lparr>p_error = None, p_blogs = None, p_articles = Some as\<rparr>)"

section \<open>Properties\<close>

subsection \<open>Class lists\<close>

lemma class_add_attrs [simp]:
  "el_id (class_add c e) = el_id e"
  "el_href (class_add c e) = el_href e"
  "el_content (class_add c e) = el_content e"
  "el_depth (class_add c e) = el_depth e"
  by (simp_all add: class_add_def)

lemma class_remove_attrs [simp]:
  "el_id (class_remove c e) = el_id e"
  "el_href (class_remove c e) = el_href e"
  "el_content (class_remove c e) = el_content e"
  "el_depth (class_remove c e) = el_depth e"
  by (simp_all add: class_remove_def)

lemma set_class_add [simp]: "set (classList (class_add c e)) = insert c (set (classList e))"
  by (auto simp add: class_add_def)

lemma set_class_remove [simp]: "set (classList (class_remove c e)) = set (classList e) - {c}"
  by (simp add: class_remove_def)

lemma has_class_add [simp]: "has_class d (class_add c e) = (d = c \<or> has_class d e)"
  by (auto simp add: has_class_def)

lemma has_class_remove [simp]: "has_class d (class_remove c e) = (d \<noteq> c \<and> has_class d e)"
  by (auto simp add: has_class_def)

lemma class_add_present: "c \<in> set (classList e) \<Longrightarrow> class_add c e = e"
  by (simp add: class_add_def)

lemma class_remove_absent: "c \<notin> set (classList e) \<Longrightarrow> class_remove c e = e"
  by (simp add: class_remove_def)

lemma tab_inactive_attrs [simp]:
  "el_id (tab_inactive e) = el_id e"
  "el_href (tab_inactive e) = el_href e"
  "el_content (tab_inactive e) = el_content e"
  "el_depth (tab_inactive e) = el_depth e"
  by (simp_all add: tab_inactive_def)

lemma tab_active_attrs [simp]:
  "el_id (tab_active e) = el_id e"
  "el_href (tab_active e) = el_href e"
  "el_content (tab_active e) = el_content e"
  "el_depth (tab_active e) = el_depth e"
  by (simp_all add: tab_active_def)

lemma has_class_inactive [simp]:
  "has_class ''tab-link'' (tab_inactive e) = has_class ''tab-link'' e"
  "has_class ''tab-content'' (tab_inactive e) = has_class ''tab-content'' e"
  "has_class ''hidden'' (tab_inactive e) = has_class ''hidden'' e"
  by (simp_all add: tab_inactive_def)

lemma has_class_active [simp]:
  "has_class ''tab-link'' (tab_active e) = has_class ''tab-link'' e"
  "has_class ''tab-content'' (tab_active e) = has_class ''tab-content'' e"
  "has_class ''hidden'' (tab_active e) = has_class ''hidden'' e"
  by (simp_all add: tab_active_def)

text \<open>Styling a tab control twice in the same way changes nothing the second time.\<close>

lemma tab_inactive_idem: "tab_inactive (tab_inactive e) = tab_inactive e"
proof -
  let ?x = "tab_inactive e"
  have 1: "class_remove ''bg-blue-50'' ?x = ?x"
    by (rule class_remove_absent) (simp add: tab_inactive_def)
  have 2: "class_remove ''text-blue-600'' ?x = ?x"
    by (rule class_remove_absent) (simp add: tab_inactive_def)
  have 3: "class_add ''text-gray-600'' ?x = ?x"
    by (rule class_add_present) (simp add: tab_inactive_def)
  have 4: "class_add ''hover:bg-gray-50'' ?x = ?x"
    by (rule class_add_present) (simp add: tab_inactive_def)
  show ?thesis
    unfolding tab_inactive_def [of ?x] by (simp only: 1 2 3 4)
qed

lemma tab_active_idem: "tab_active (tab_active e) = tab_active e"
proof -
  let ?x = "tab_active e"
  have 1: "class_add ''bg-blue-50'' ?x = ?x"
    by (rule class_add_present) (simp add: tab_active_def)
  have 2: "class_add ''text-blue-600'' ?x = ?x"
    by (rule class_add_present) (simp add: tab_active_def)
  have 3: "class_remove ''text-gray-600'' ?x = ?x"
    by (rule class_remove_absent) (simp add: tab_active_def)
  have 4: "class_remove ''hover:bg-gray-50'' ?x = ?x"
    by (rule class_remove_absent) (simp add: tab_active_def)
  show ?thesis
    unfolding tab_active_def [of ?x] by (simp only: 1 2 3 4)
qed

lemma classList_tab_active:
  "''bg-blue-50'' \<notin> set (classList y) \<Longrightarrow> ''text-blue-600'' \<notin> set (classList y) \<Longrightarrow>
   classList (tab_active y) =
     removeAll ''hover:bg-gray-50'' (removeAll ''text-gray-600'' (classList y))
       @ [''bg-blue-50'', ''text-blue-600'']"
  by (simp add: tab_active_def class_add_def class_remove_def)

lemma classList_tab_inactive_gray:
  "removeAll ''hover:bg-gray-50'' (removeAll ''text-gray-600'' (classList (tab_inactive e))) =
   removeAll ''hover:bg-gray-50'' (removeAll ''text-gray-600''
     (removeAll ''text-blue-600'' (removeAll ''bg-blue-50'' (classList e))))"
  by (simp add: tab_inactive_def class_add_def class_remove_def)

lemma classList_active_inactive:
  "classList (tab_active (tab_inactive e)) =
     removeAll ''hover:bg-gray-50'' (removeAll ''text-gray-600''
       (removeAll ''text-blue-600'' (removeAll ''bg-blue-50'' (classList e))))
       @ [''bg-blue-50'', ''text-blue-600'']"
proof -
  have "''bg-blue-50'' \<notin> set (classList (tab_inactive e))"
    and "''text-blue-600'' \<notin> set (classList (tab_inactive e))"
    by (simp_all add: tab_inactive_def)
  then have "classList (tab_active (tab_inactive e)) =
      removeAll ''hover:bg-gray-50'' (removeAll ''text-gray-600'' (classList (tab_inactive e)))
        @ [''bg-blue-50'', ''text-blue-600'']"
    by (rule classList_tab_active)
  then show ?thesis
    by (simp only: classList_tab_inactive_gray)
qed

lemma active_inactive_idem:
  "tab_active (tab_inactive (tab_active (tab_inactive e))) = tab_active (tab_inactive e)"
  by (rule element.equality) (simp_all add: classList_active_inactive)

subsection \<open>One pass of switchTab over an element\<close>

lemma link_pass_idem: "link_pass m2 (link_pass m2 e) = link_pass m2 e"
  by (simp add: link_pass_def Let_def tab_inactive_idem tab_active_idem active_inactive_idem)

lemma link_pass_keeps [simp]:
  "has_class ''tab-content'' (link_pass m2 e) = has_class ''tab-content'' e"
  "has_class ''hidden'' (link_pass m2 e) = has_class ''hidden'' e"
  by (simp_all add: link_pass_def Let_def)

lemma panel_pass_settled:
  "(m1 \<longrightarrow> \<not> has_class ''hidden'' x) \<Longrightarrow>
   (\<not> m1 \<longrightarrow> has_class ''tab-content'' x \<longrightarrow> has_class ''hidden'' x) \<Longrightarrow>
   panel_pass m1 x = x"
  by (auto simp add: panel_pass_def Let_def has_class_def class_add_def class_remove_def)

lemma panel_pass_result:
  "m1 \<longrightarrow> \<not> has_class ''hidden'' (panel_pass m1 e)"
  "\<not> m1 \<longrightarrow> has_class ''tab-content'' (panel_pass m1 e) \<longrightarrow> has_class ''hidden'' (panel_pass m1 e)"
  by (simp_all add: panel_pass_def Let_def)

lemma panel_pass_content [simp]:
  "has_class ''tab-content'' (panel_pass m1 e) = has_class ''tab-content'' e"
  by (simp add: panel_pass_def Let_def)

lemma tab_pass_attrs [simp]:
  "el_id (tab_pass m1 m2 e) = el_id e" "el_href (tab_pass m1 m2 e) = el_href e"
  by (simp_all add: tab_pass_def panel_pass_def link_pass_def Let_def)

lemma has_id_pass [simp]: "has_id t (tab_pass m1 m2 e) = has_id t e"
  by (simp add: has_id_def)

lemma has_href_pass [simp]: "has_href_to t (tab_pass m1 m2 e) = has_href_to t e"
  by (simp add: has_href_to_def)

lemma tab_pass_idem: "tab_pass m1 m2 (tab_pass m1 m2 e) = tab_pass m1 m2 e"
proof -
  let ?x = "link_pass m2 (panel_pass m1 e)"
  have "panel_pass m1 ?x = ?x"
    by (rule panel_pass_settled) (simp_all add: panel_pass_result)
  then show ?thesis
    by (simp add: tab_pass_def link_pass_idem)
qed

lemma tab_pass_unselected_hidden:
  "has_class ''tab-content'' e \<Longrightarrow> has_class ''hidden'' (tab_pass False m2 e)"
  by (simp add: tab_pass_def panel_pass_def Let_def)

subsection \<open>switchTab as one walk through the document\<close>

lemma tab_steps_Nil: "tab_steps t f1 f2 [] = []"
  by (simp add: tab_steps_def hide_contents_def show_selected_def reset_tabs_def
      mark_selected_def)

lemma tab_steps_Cons:
  "tab_steps t f1 f2 (e # es) =
     tab_pass (\<not> f1 \<and> has_id t e) (\<not> f2 \<and> has_href_to t e) e
       # tab_steps t (f1 \<or> has_id t e) (f2 \<or> has_href_to t e) es"
  by (simp add: tab_steps_def tab_pass_def panel_pass_def link_pass_def Let_def
      hide_contents_def show_selected_def reset_tabs_def mark_selected_def
      has_id_def has_href_to_def)

lemma tab_steps_walk: "tab_steps t f1 f2 es = tab_walk t f1 f2 es"
  by (induction es arbitrary: f1 f2) (simp_all add: tab_steps_Nil tab_steps_Cons)

lemma switchTab_walk: "elements (switchTab t s) = tab_walk t False False (elements s)"
  using tab_steps_walk [of t False False "elements s"]
  by (simp add: switchTab_def tab_steps_def)

lemma tab_walk_idem: "tab_walk t f1 f2 (tab_walk t f1 f2 es) = tab_walk t f1 f2 es"
  by (induction es arbitrary: f1 f2) (simp_all add: tab_pass_idem)

lemma tab_walk_hidden:
  "\<forall>e \<in> set es. has_class ''tab-content'' e \<longrightarrow> \<not> has_id t e \<Longrightarrow>
   \<forall>e \<in> set (tab_walk t f1 f2 es). has_class ''tab-content'' e \<longrightarrow> has_class ''hidden'' e"
proof (induction es arbitrary: f1 f2)
  case Nil
  show ?case by simp
next
  case (Cons x xs)
  have rest: "\<forall>e \<in> set (tab_walk t (f1 \<or> has_id t x) (f2 \<or> has_href_to t x) xs).
      has_class ''tab-content'' e \<longrightarrow> has_class ''hidden'' e"
    using Cons.prems by (intro Cons.IH) simp
  have "has_class ''tab-content'' x \<Longrightarrow>
      has_class ''hidden'' (tab_pass (\<not> f1 \<and> has_id t x) (\<not> f2 \<and> has_href_to t x) x)"
    using Cons.prems by (simp add: tab_pass_unselected_hidden)
  with rest show ?case
    by (simp add: tab_pass_def)
qed

subsection \<open>The loading overlay\<close>

lemma dropWhile_append_stop:
  "\<not> p b \<Longrightarrow> dropWhile p (xs @ b # ds) = dropWhile p xs @ b # ds"
  by (induction xs) simp_all

lemma tops_block:
  "\<forall>d \<in> set ds. el_depth b < el_depth d \<Longrightarrow>
   tops P (b # ds) = (if P b then [b] else tops P ds)"
proof -
  assume "\<forall>d \<in> set ds. el_depth b < el_depth d"
  then have "dropWhile (\<lambda>y. el_depth b < el_depth y) ds = []"
    by (simp add: dropWhile_eq_Nil_conv)
  then have "tops P (b # ds) = (if P b then b # tops P [] else tops P ds)"
    by (simp only: tops.simps)
  then show ?thesis by simp
qed

text \<open>What is appended to the body lies inside none of the elements before it.\<close>

lemma tops_append:
  "el_depth b = 0 \<Longrightarrow> tops P (es @ b # ds) = tops P es @ tops P (b # ds)"
proof (induction P es rule: tops.induct)
  case (1 P)
  show ?case by simp
next
  case (2 P x xs)
  have stop: "dropWhile (\<lambda>y. el_depth x < el_depth y) (xs @ b # ds) =
      dropWhile (\<lambda>y. el_depth x < el_depth y) xs @ b # ds"
    using "2.prems" by (intro dropWhile_append_stop) simp
  show ?case
  proof (cases "P x")
    case True
    with "2.IH"(1) [OF True "2.prems"] stop show ?thesis by simp
  next
    case False
    with "2.IH"(2) [OF False "2.prems"] show ?thesis by simp
  qed
qed

text \<open>Removing the first match with all that is inside it drops the first of the tops.\<close>

lemma tops_remove_subtree: "tops P (remove_subtree P es) = tl (tops P es)"
  by (induction es) simp_all


lemma inside_deeper: "\<forall>d \<in> set (inside e ds). el_depth e < el_depth d"
  by (simp add: inside_def)

lemma inside_no_top:
  "tops P (e # inside e ds) = (if P e then [e] else tops P (inside e ds))"
  by (rule tops_block) (rule inside_deeper)

lemma top_overlays_showLoading:
  "top_overlays (showLoading rt m s) = top_overlays s @ [loading_element m]"
proof -
  have d: "el_depth (loading_element m) = 0"
    and i: "has_id ''loadingOverlay'' (loading_element m)"
    by (simp_all add: loading_element_def has_id_def)
  have "tops (has_id ''loadingOverlay'')
        (elements s @ loading_element m
           # inside (loading_element m) (parse_html rt (loading_markup m))) =
      tops (has_id ''loadingOverlay'') (elements s) @ [loading_element m]"
    by (simp only: tops_append [OF d] inside_no_top i if_True)
  then show ?thesis
    by (simp add: top_overlays_def showLoading_def)
qed


lemma top_overlays_hideLoading: "top_overlays (hideLoading s) = tl (top_overlays s)"
  by (simp add: top_overlays_def hideLoading_def tops_remove_subtree)


lemma queue_length: "length (foldl queue_step q cs) = foldl count_step (length q) cs"
proof (induction cs arbitrary: q)
  case Nil
  show ?case by simp
next
  case (Cons c cs)
  show ?case by (cases c) (simp_all add: Cons.IH)
qed

text \<open>
  C1, as the code has it: \<^verbatim>\<open>showLoading\<close> never replaces an overlay. Each call
  appends one more overlay after the ones on the page, and \<^verbatim>\<open>hideLoading\<close>
  removes the first overlay in document order, if there is one. So after
  every sequence of the two calls the overlays on the page are the queue that
  starts with the overlays before, gets the new overlay at its end at each
  \<^verbatim>\<open>showLoading\<close> and loses its head at each \<^verbatim>\<open>hideLoading\<close>; their number is
  counted up at each \<^verbatim>\<open>showLoading\<close> and down (not below zero) at each
  \<^verbatim>\<open>hideLoading\<close>. This holds for every message and every parser. There is at
  most one overlay after a \<^verbatim>\<open>showLoading\<close> exactly when there was none before it.
\<close>

theorem loading_overlay_queue:
  "top_overlays (run_loading rt cs s) = foldl queue_step (top_overlays s) cs
   \<and> length (top_overlays (run_loading rt cs s)) =
       foldl count_step (length (top_overlays s)) cs
   \<and> (length (top_overlays (showLoading rt m s)) \<le> 1) = (top_overlays s = [])"
proof -
  have "top_overlays (foldl (loading_step rt) s cs) = foldl queue_step (top_overlays s) cs"
  proof (induction cs arbitrary: s)
    case Nil
    show ?case by simp
  next
    case (Cons c cs)
    show ?case
      by (cases c)
         (simp_all add: Cons.IH top_overlays_showLoading top_overlays_hideLoading)
  qed
  then show ?thesis
    by (simp add: run_loading_def queue_length top_overlays_showLoading)
qed

theorem loading_overlay_queue_witness:
  "top_overlays example_page = []
   \<and> top_overlays (run_loading (example_env (Rejected ''offline''))
        [Show ''Refreshing blogs...'', Show ''Fetching articles...'', Hide] example_page) =
       [loading_element ''Fetching articles...'']"
proof -
  have h: "top_overlays example_page = []"
    by (simp add: top_overlays_def example_page_def has_id_def)
  show ?thesis
    using h loading_overlay_queue [of "example_env (Rejected ''offline'')"
        "[Show ''Refreshing blogs...'', Show ''Fetching articles...'', Hide]" example_page]
    by simp
qed

text \<open>
  C1 as stated fails: two calls of \<^verbatim>\<open>showLoading\<close> in a row, on a page without an
  overlay, leave two overlays in the document, the first one not replaced.
\<close>

theorem showLoading_twice_two_overlays:
  "top_overlays example_page = []
   \<and> top_overlays (run_loading (example_env (Rejected ''offline''))
        [Show ''Refreshing blogs...'', Show ''Fetching articles...''] example_page) =
       [loading_element ''Refreshing blogs...'', loading_element ''Fetching articles...'']
   \<and> length (overlays (run_loading (example_env (Rejected ''offline''))
        [Show ''Refreshing blogs...'', Show ''Fetching articles...''] example_page)) = 2"
  by (simp add: run_loading_def top_overlays_def overlays_def showLoading_def
      example_page_def example_env_def example_parser_def overlay_inner_def inside_def
      loading_element_def loading_markup_def has_id_def nl_def indent_def)

subsection \<open>Tab switching\<close>

text \<open>
  C7, as the code has it: \<^verbatim>\<open>switchTab\<close> first hides every content panel and then
  shows the element with the target id. When no content panel carries the
  target id, every content panel is hidden afterwards: none is visible.
\<close>

theorem switchTab_unknown_hides_all:
  assumes "\<forall>e \<in> set (elements s). has_class ''tab-content'' e \<longrightarrow> \<not> has_id tabId e"
  shows "visible_panels (switchTab tabId s) = []"
  using tab_walk_hidden [OF assms, of False False]
  by (simp add: visible_panels_def switchTab_walk filter_empty_conv)

theorem switchTab_unknown_hides_all_witness:
  "\<not> (\<exists>e \<in> set (elements example_page). has_class ''tab-content'' e \<and> has_id ''reports'' e)
   \<and> visible_panels example_page \<noteq> []
   \<and> visible_panels (switchTab ''reports'' example_page) = []"
proof -
  have h: "\<forall>e \<in> set (elements example_page).
      has_class ''tab-content'' e \<longrightarrow> \<not> has_id ''reports'' e"
    by (simp add: example_page_def has_id_def)
  have v: "visible_panels example_page \<noteq> []"
    by (simp add: visible_panels_def example_page_def has_class_def)
  show ?thesis
    using h v switchTab_unknown_hides_all [OF h] by simp
qed

text \<open>
  C7 as stated fails: on the example page the panel \<^verbatim>\<open>settings\<close> is visible, and
  after a switch to the unknown id \<^verbatim>\<open>reports\<close> no panel is visible, so the
  panel \<^verbatim>\<open>settings\<close> has changed its visibility.
\<close>

theorem switchTab_unknown_changes_panels:
  "map el_id (visible_panels example_page) = [Some ''settings'']
   \<and> map el_id (visible_panels (switchTab ''reports'' example_page)) = []"
  by (simp add: visible_panels_def switchTab_def hide_contents_def show_selected_def
      reset_tabs_def mark_selected_def tab_inactive_def tab_active_def class_add_def
      class_remove_def has_class_def has_id_def has_href_to_def example_page_def)

text \<open>
  C8: switching to a tab twice in a row gives the same page as switching to it
  once, for every tab id (known or not): the same panels are visible and the
  same controls carry the active styling, since the whole state is the same.
\<close>

theorem switchTab_idempotent:
  "switchTab tabId (switchTab tabId s) = switchTab tabId s
   \<and> visible_panels (switchTab tabId (switchTab tabId s)) = visible_panels (switchTab tabId s)
   \<and> active_tabs (switchTab tabId (switchTab tabId s)) = active_tabs (switchTab tabId s)"
proof -
  have "elements (switchTab tabId (switchTab tabId s)) = elements (switchTab tabId s)"
    by (simp only: switchTab_walk tab_walk_idem)
  then have "switchTab tabId (switchTab tabId s) = switchTab tabId s"
    by (simp add: switchTab_def)
  then show ?thesis by simp
qed

theorem switchTab_idempotent_witness:
  "switchTab ''articles'' (switchTab ''articles'' example_page) = switchTab ''articles'' example_page
   \<and> map el_id (visible_panels (switchTab ''articles'' example_page)) = [Some ''articles'']
   \<and> map el_href (active_tabs (switchTab ''articles'' example_page)) = [Some ''#articles'']"
proof -
  have "map el_id (visible_panels (switchTab ''articles'' example_page)) = [Some ''articles'']
      \<and> map el_href (active_tabs (switchTab ''articles'' example_page)) = [Some ''#articles'']"
    by (simp add: visible_panels_def active_tabs_def switchTab_def hide_contents_def
        show_selected_def reset_tabs_def mark_selected_def tab_inactive_def tab_active_def
        class_add_def class_remove_def has_class_def has_id_def has_href_to_def
        example_page_def)
  then show ?thesis
    using switchTab_idempotent [of "''articles''" example_page] by simp
qed

subsection \<open>Fields that a step leaves alone\<close>

lemma foldl_snoc_map: "foldl (\<lambda>acc x. acc @ [f x]) acc xs = acc @ map f xs"
  by (induction xs arbitrary: acc) simp_all

lemma tbody_update:
  "tbody (updateArticlesTable s) = map_option (\<lambda>old. map article_row (articles s)) (tbody s)"
  by (simp add: updateArticlesTable_def foldl_snoc_map split: option.splits)

lemma updateArticlesTable_fields [simp]:
  "articles (updateArticlesTable s) = articles s"
  "trace (updateArticlesTable s) = trace s"
  "elements (updateArticlesTable s) = elements s"
  "blogSelect (updateArticlesTable s) = blogSelect s"
  "apiKey (updateArticlesTable s) = apiKey s"
  by (simp_all add: updateArticlesTable_def split: option.splits)

lemma showNotification_fields [simp]:
  "articles (showNotification m t s) = articles s"
  "trace (showNotification m t s) = trace s @ [Notification m t]"
  "tbody (showNotification m t s) = tbody s"
  "blogSelect (showNotification m t s) = blogSelect s"
  "apiKey (showNotification m t s) = apiKey s"
  by (simp_all add: showNotification_def)

lemma showLoading_fields [simp]:
  "articles (showLoading rt m s) = articles s"
  "trace (showLoading rt m s) = trace s @ [LoadingShown m]"
  "tbody (showLoading rt m s) = tbody s"
  "blogSelect (showLoading rt m s) = blogSelect s"
  "apiKey (showLoading rt m s) = apiKey s"
  by (simp_all add: showLoading_def)

lemma hideLoading_fields [simp]:
  "articles (hideLoading s) = articles s"
  "trace (hideLoading s) = trace s @ [LoadingHidden]"
  "tbody (hideLoading s) = tbody s"
  "blogSelect (hideLoading s) = blogSelect s"
  "apiKey (hideLoading s) = apiKey s"
  by (simp_all add: hideLoading_def)

lemma send_fields [simp]:
  "articles (send r s) = articles s"
  "trace (send r s) = trace s @ [Fetch r]"
  "tbody (send r s) = tbody s"
  "blogSelect (send r s) = blogSelect s"
  "elements (send r s) = elements s"
  "apiKey (send r s) = apiKey s"
  by (simp_all add: send_def)

lemma top_overlays_kept [simp]:
  "top_overlays (send r s) = top_overlays s"
  "top_overlays (updateArticlesTable s) = top_overlays s"
  "top_overlays (fill_blogSelect bs s) = top_overlays s"
  "top_overlays (s\<lparr>articles := as\<rparr>) = top_overlays s"
  "top_overlays (s\<lparr>trace := tr\<rparr>) = top_overlays s"
  by (simp_all add: top_overlays_def send_def updateArticlesTable_def fill_blogSelect_def
      split: option.splits)

lemma hide_count_kept [simp]:
  "hide_count (showNotification m t s) = hide_count s"
  "hide_count (send r s) = hide_count s"
  "hide_count (showLoading rt m s) = hide_count s"
  "hide_count (updateArticlesTable s) = hide_count s"
  "hide_count (fill_blogSelect bs s) = hide_count s"
  "hide_count (s\<lparr>articles := as\<rparr>) = hide_count s"
  "hide_count (s\<lparr>trace := trace s @ [ConsoleError m]\<rparr>) = hide_count s"
  "hide_count (hideLoading s) = Suc (hide_count s)"
  by (simp_all add: hide_count_def showNotification_def send_def showLoading_def
      updateArticlesTable_def fill_blogSelect_def hideLoading_def split: option.splits)

subsection \<open>The try blocks\<close>

lemma sitemapUrl_nonempty: "sitemapUrl_of s \<noteq> []"
  by (simp add: sitemapUrl_of_def or_else_def split: option.splits)

lemma fetchArticles_try_invalid:
  "\<not> url_parses rt (sitemapUrl_of s) \<Longrightarrow>
   fetchArticles_try rt s = (Some ''Please enter a valid URL'', s)"
  by (simp add: fetchArticles_try_def Let_def sitemapUrl_nonempty)

lemma fetchArticles_try_failure:
  "url_parses rt (sitemapUrl_of s) \<Longrightarrow> fetch_failure (network rt (articles_request rt s)) \<Longrightarrow>
   \<exists>m. fetchArticles_try rt s =
     (Some m, send (articles_request rt s) (showLoading rt ''Fetching articles...'' s))"
  by (cases "network rt (articles_request rt s)" rule: fetch_failure.cases)
     (auto simp add: fetchArticles_try_def Let_def sitemapUrl_nonempty articles_request_def
        split: list.splits)

lemma fetchArticles_try_success:
  "url_parses rt (sitemapUrl_of s) \<Longrightarrow>
   network rt (articles_request rt s) = Responded True (JsonObj d) \<Longrightarrow>
   p_articles d = Some as \<Longrightarrow> as \<noteq> [] \<Longrightarrow>
   fetchArticles_try rt s =
     (None,
      showNotification (''Successfully fetched '' @ show_nat (length as) @ '' articles'') Success
        (updateArticlesTable
           ((send (articles_request rt s) (showLoading rt ''Fetching articles...'' s))
              \<lparr>articles := as\<rparr>)))"
  by (cases as)
     (simp_all add: fetchArticles_try_def Let_def sitemapUrl_nonempty articles_request_def)

lemma refreshBlogs_try_nokey:
  "apiKey s = [] \<Longrightarrow> refreshBlogs_try rt s = (Some ''Please set your API key first'', s)"
  by (simp add: refreshBlogs_try_def)

lemma refreshBlogs_try_blogSelect:
  "fst (refreshBlogs_try rt s) = Some m \<Longrightarrow>
   blogSelect (snd (refreshBlogs_try rt s)) = blogSelect s"
  by (simp add: refreshBlogs_try_def Let_def
      split: if_splits fetch_outcome.splits body.splits option.splits)

lemma refreshBlogs_try_no_errors:
  "error_notifications (snd (refreshBlogs_try rt s)) = error_notifications s"
  by (simp add: refreshBlogs_try_def Let_def error_notifications_def showLoading_def send_def
      showNotification_def fill_blogSelect_def
      split: if_splits fetch_outcome.splits body.splits option.splits)

text \<open>
  The try block of \<^verbatim>\<open>refreshBlogs\<close> throws exactly when the API key is empty, the
  request is rejected, the body is not JSON or is \<^verbatim>\<open>null\<close>, or the \<^verbatim>\<open>blogs\<close> field
  is missing.
\<close>

lemma refreshBlogs_try_throws_iff:
  "(fst (refreshBlogs_try rt s) \<noteq> None) =
     (apiKey s = [] \<or>
      (case network rt (PostBlogs ''/api/blogs'' (apiKey s)) of
         Rejected m \<Rightarrow> True
       | Responded ok (BadJson m) \<Rightarrow> True
       | Responded ok JsonNull \<Rightarrow> True
       | Responded ok (JsonObj d) \<Rightarrow> p_blogs d = None))"
  by (simp add: refreshBlogs_try_def Let_def
      split: fetch_outcome.splits body.splits option.splits)










lemma example_env_fields [simp]:
  "url_parses (example_env r) u = (take 8 u = ''https://'')"
  "network (example_env r) q = r"
  "origin (example_env r) = ''http://localhost:8000''"
  by (simp_all add: example_env_def)

lemma example_page_fields [simp]:
  "apiKey example_page = []"
  "articles example_page = []"
  "apiKeyInput example_page = Some []"
  "sitemapUrlInput example_page = Some []"
  "blogSelect example_page = Some []"
  "tbody example_page = Some []"
  "trace example_page = []"
  by (simp_all add: example_page_def)

subsection \<open>fetchArticles\<close>

text \<open>
  C2, as the code has it: when the sitemap address (the input, or the default
  when the input is empty) does not parse as a URL, \<^verbatim>\<open>fetchArticles\<close> sends no
  request and shows exactly one error notification, "Please enter a valid
  URL"; the catch block then empties \<open>articles\<close> and renders the table again,
  with no rows.
\<close>

theorem fetchArticles_invalid_url:
  assumes "\<not> url_parses rt (sitemapUrl_of s)"
  shows "requests (fetchArticles rt s) = requests s
    \<and> trace (fetchArticles rt s) =
        trace s @ [ConsoleError ''Please enter a valid URL'',
                   Notification ''Please enter a valid URL'' Error, LoadingHidden]
    \<and> error_notifications (fetchArticles rt s) =
        error_notifications s @ [Notification ''Please enter a valid URL'' Error]
    \<and> articles (fetchArticles rt s) = []
    \<and> tbody (fetchArticles rt s) = map_option (\<lambda>old. []) (tbody s)"
  using assms
  by (simp add: fetchArticles_def fetchArticles_try_invalid tbody_update requests_def
      error_notifications_def)

theorem fetchArticles_invalid_url_witness:
  "\<not> url_parses (example_env (Rejected ''offline'')) (sitemapUrl_of stale_page)
   \<and> trace (fetchArticles (example_env (Rejected ''offline'')) stale_page) =
       [ConsoleError ''Please enter a valid URL'',
        Notification ''Please enter a valid URL'' Error, LoadingHidden]
   \<and> articles (fetchArticles (example_env (Rejected ''offline'')) stale_page) = []"
proof -
  have h: "\<not> url_parses (example_env (Rejected ''offline'')) (sitemapUrl_of stale_page)"
    by (simp add: stale_page_def sitemapUrl_of_def or_else_def)
  show ?thesis
    using h fetchArticles_invalid_url [OF h] by (simp add: stale_page_def)
qed

text \<open>
  C2 as stated fails in its last part: with one article in the collection and
  the address \<^verbatim>\<open>not a url\<close>, the collection is empty afterwards, not what it
  was before.
\<close>

theorem fetchArticles_invalid_url_clears_articles:
  "sitemapUrl_of stale_page = ''not a url''
   \<and> articles stale_page = [example_article]
   \<and> articles (fetchArticles (example_env (Rejected ''offline'')) stale_page) = []"
  by (simp add: fetchArticles_def fetchArticles_try_def Let_def stale_page_def
      sitemapUrl_of_def or_else_def)

text \<open>
  C3: when the address is valid and the fetch fails (the request is rejected,
  the status is not ok, the body does not parse or is \<^verbatim>\<open>null\<close>, or an ok response
  carries no article or an empty list, as the body of a server-reported error
  does), \<^verbatim>\<open>fetchArticles\<close> shows exactly one error notification, leaves \<open>articles\<close>
  empty whatever it held before, and renders the table with zero rows.
\<close>

theorem fetchArticles_failure_resets:
  assumes "url_parses rt (sitemapUrl_of s)"
    and "fetch_failure (network rt (articles_request rt s))"
  shows "\<exists>m. trace (fetchArticles rt s) =
           trace s @ [LoadingShown ''Fetching articles...'', Fetch (articles_request rt s),
                      ConsoleError m, Notification m Error, LoadingHidden]
         \<and> error_notifications (fetchArticles rt s) =
             error_notifications s @ [Notification m Error]
         \<and> articles (fetchArticles rt s) = []
         \<and> tbody (fetchArticles rt s) = map_option (\<lambda>old. []) (tbody s)"
proof -
  from fetchArticles_try_failure [OF assms] obtain m where
    "fetchArticles_try rt s =
       (Some m, send (articles_request rt s) (showLoading rt ''Fetching articles...'' s))" ..
  then show ?thesis
    by (simp add: fetchArticles_def tbody_update error_notifications_def)
qed

theorem fetchArticles_failure_resets_witness:
  "url_parses (example_env (with_articles []))
     (sitemapUrl_of (example_page\<lparr>articles := [example_article]\<rparr>))
   \<and> fetch_failure (network (example_env (with_articles []))
        (articles_request (example_env (with_articles []))
           (example_page\<lparr>articles := [example_article]\<rparr>)))
   \<and> articles (fetchArticles (example_env (with_articles []))
        (example_page\<lparr>articles := [example_article]\<rparr>)) = []
   \<and> tbody (fetchArticles (example_env (with_articles []))
        (example_page\<lparr>articles := [example_article]\<rparr>)) = Some []"
proof -
  let ?rt = "example_env (with_articles [])"
  let ?s = "example_page\<lparr>articles := [example_article]\<rparr>"
  have h1: "url_parses ?rt (sitemapUrl_of ?s)"
    by (simp add: sitemapUrl_of_def or_else_def)
  have h2: "fetch_failure (network ?rt (articles_request ?rt ?s))"
    by (simp add: with_articles_def)
  show ?thesis
    using h1 h2 fetchArticles_failure_resets [OF h1 h2] by auto
qed

text \<open>
  C4: when the address is valid and an ok response carries a non-empty list of
  articles, \<open>articles\<close> becomes exactly that list, in the order received and
  whatever it held before, and the table is rendered from it, one row per
  article.
\<close>

theorem fetchArticles_success_replaces:
  assumes "url_parses rt (sitemapUrl_of s)"
    and "network rt (articles_request rt s) = Responded True (JsonObj d)"
    and "p_articles d = Some as" and "as \<noteq> []"
  shows "articles (fetchArticles rt s) = as
         \<and> tbody (fetchArticles rt s) = map_option (\<lambda>old. map article_row as) (tbody s)
         \<and> trace (fetchArticles rt s) =
           trace s @ [LoadingShown ''Fetching articles...'', Fetch (articles_request rt s),
             Notification (''Successfully fetched '' @ show_nat (length as) @ '' articles'')
               Success,
             LoadingHidden]"
  by (simp add: fetchArticles_def fetchArticles_try_success [OF assms] tbody_update)

theorem fetchArticles_success_replaces_witness:
  "url_parses (example_env (with_articles [second_article]))
     (sitemapUrl_of (example_page\<lparr>articles := [example_article]\<rparr>))
   \<and> articles (fetchArticles (example_env (with_articles [second_article]))
        (example_page\<lparr>articles := [example_article]\<rparr>)) = [second_article]
   \<and> tbody (fetchArticles (example_env (with_articles [second_article]))
        (example_page\<lparr>articles := [example_article]\<rparr>)) = Some [article_row second_article]"
proof -
  let ?rt = "example_env (with_articles [second_article])"
  let ?s = "example_page\<lparr>articles := [example_article]\<rparr>"
  have h1: "url_parses ?rt (sitemapUrl_of ?s)"
    by (simp add: sitemapUrl_of_def or_else_def)
  have h2: "network ?rt (articles_request ?rt ?s) =
      Responded True
        (JsonObj \<lparr>p_error = None, p_blogs = None, p_articles = Some [second_article]\<rparr>)"
    by (simp add: with_articles_def)
  show ?thesis
    using h1 fetchArticles_success_replaces [OF h1 h2, of "[second_article]"] by simp
qed

subsection \<open>refreshBlogs\<close>

text \<open>
  C5: with an empty API key \<^verbatim>\<open>refreshBlogs\<close> sends no request and shows exactly
  one error notification, whose message contains "API key"; and whenever its
  try block throws (empty key, rejected request, unreadable body, missing
  \<^verbatim>\<open>blogs\<close> field with or without a server-reported error), exactly one error
  notification is shown and the options of the blog selector are what they
  were before.
\<close>

theorem refreshBlogs_failure:
  "(apiKey s = [] \<longrightarrow>
      requests (refreshBlogs rt s) = requests s
      \<and> trace (refreshBlogs rt s) =
          trace s @ [Notification ''Please set your API key first'' Error, LoadingHidden]
      \<and> sublist ''API key'' ''Please set your API key first'')
   \<and> (fst (refreshBlogs_try rt s) = Some m \<longrightarrow>
        blogSelect (refreshBlogs rt s) = blogSelect s
        \<and> error_notifications (refreshBlogs rt s) =
            error_notifications s @ [Notification m Error])"
proof -
  have "sublist ''API key'' (''Please set your '' @ ''API key'' @ '' first'')"
    by (rule sublist_appendI)
  then have key: "sublist ''API key'' ''Please set your API key first''"
    by simp
  have "fst (refreshBlogs_try rt s) = Some m \<Longrightarrow>
      blogSelect (refreshBlogs rt s) = blogSelect s
      \<and> error_notifications (refreshBlogs rt s) =
          error_notifications s @ [Notification m Error]"
    using refreshBlogs_try_blogSelect [of rt s m] refreshBlogs_try_no_errors [of rt s]
    by (cases "refreshBlogs_try rt s")
       (auto simp add: refreshBlogs_def error_notifications_def split: option.splits)
  then show ?thesis
    using key by (simp add: refreshBlogs_def refreshBlogs_try_nokey requests_def)
qed

theorem refreshBlogs_failure_witness:
  "apiKey example_page = []
   \<and> trace (refreshBlogs (example_env (Rejected ''offline'')) example_page) =
       [Notification ''Please set your API key first'' Error, LoadingHidden]
   \<and> fst (refreshBlogs_try (example_env invalid_key_response) keyed_page) =
       Some ''Invalid API key''
   \<and> blogSelect (refreshBlogs (example_env invalid_key_response) keyed_page) =
       Some [\<lparr>opt_value = ''7'', opt_text = ''News''\<rparr>]
   \<and> error_notifications (refreshBlogs (example_env invalid_key_response) keyed_page) =
       [Notification ''Invalid API key'' Error]"
proof -
  have h: "fst (refreshBlogs_try (example_env invalid_key_response) keyed_page) =
      Some ''Invalid API key''"
    by (simp add: refreshBlogs_try_def Let_def keyed_page_def invalid_key_response_def
        or_else_def)
  have b: "blogSelect keyed_page = Some [\<lparr>opt_value = ''7'', opt_text = ''News''\<rparr>]"
    and e: "error_notifications keyed_page = []"
    by (simp_all add: keyed_page_def error_notifications_def)
  show ?thesis
    using h b e
      refreshBlogs_failure [of example_page "example_env (Rejected ''offline'')" "[]"]
      refreshBlogs_failure [of keyed_page "example_env invalid_key_response"
        "''Invalid API key''"]
    by simp
qed

subsection \<open>The overlay around the two workflows\<close>




subsection \<open>The article table\<close>





subsection \<open>Saving the API key\<close>

text \<open>
  C10: on a page with the API key input, a click on the save control sets
  \<open>apiKey\<close> to the value of the input, whatever it is, and shows the success
  notification. With an empty input \<open>apiKey\<close> is empty afterwards, and a blog
  refresh that follows fails on its API key check: it sends no request and
  shows the error notification.
\<close>

theorem saveApiKey_click_sets_key:
  assumes "apiKeyInput s = Some v"
  shows "\<exists>s'. saveApiKey_click s = Some s' \<and> apiKey s' = v
           \<and> trace s' = trace s @ [Notification ''API key saved successfully'' Success]
           \<and> (v = [] \<longrightarrow>
                trace (refreshBlogs rt s') =
                  trace s' @ [Notification ''Please set your API key first'' Error,
                              LoadingHidden])"
  using assms by (simp add: saveApiKey_click_def refreshBlogs_def refreshBlogs_try_nokey)

theorem saveApiKey_click_sets_key_witness:
  "apiKeyInput example_page = Some []
   \<and> (\<exists>s'. saveApiKey_click example_page = Some s' \<and> apiKey s' = []
         \<and> trace s' = [Notification ''API key saved successfully'' Success]
         \<and> trace (refreshBlogs (example_env (Rejected ''offline'')) s') =
             [Notification ''API key saved successfully'' Success,
              Notification ''Please set your API key first'' Error, LoadingHidden])"
proof -
  have h: "apiKeyInput example_page = Some []"
    by simp
  show ?thesis
    using h saveApiKey_click_sets_key [OF h, of "example_env (Rejected ''offline'')"]
    by auto
qed

end
